theory Spec2Isabelle
  imports Main "HOL-Library.Char_ord"
begin

section \<open>Report execution routes (notebooker/web/routes/report_execution.py)\<close>

subsection \<open>Strings\<close>

text \<open>Python's \<^verbatim>\<open>s.startswith(prefix)\<close> on \<^verbatim>\<open>str\<close>.\<close>

definition startswith :: "string \<Rightarrow> string \<Rightarrow> bool" where
  "startswith s p = (take (length p) s = p)"

text \<open>Python's \<^verbatim>\<open>sep.join(xs)\<close>.\<close>

fun join :: "string \<Rightarrow> string list \<Rightarrow> string" where
  "join sep [] = []"
| "join sep [x] = x"
| "join sep (x # y # ys) = x @ sep @ join sep (y # ys)"

definition newline :: char where
  "newline = CHR 0x0A"

subsection \<open>The call to \<^verbatim>\<open>run_report_in_subprocess\<close>\<close>

text \<open>
  \<^verbatim>\<open>run_report_in_subprocess\<close> lives in \<^verbatim>\<open>notebooker.execute_notebook\<close>, outside
  the files modelled here. A call to it is recorded with the arguments the two callers
  pass. \<^verbatim>\<open>_handle_run_report\<close> passes everything by keyword; \<^verbatim>\<open>_rerun_report\<close>
  passes the first six positionally, read here in the order of those keywords
  (\<^verbatim>\<open>base_config, report_name, report_title, mailto, error_mailto, overrides\<close>).
  An argument a caller leaves out (the callee's default applies) is \<open>None\<close>.
  The configuration object and the overrides mapping are passed through untouched, so
  their types are parameters.
\<close>

record ('cfg, 'ov) subprocess_call =
  base_config :: 'cfg
  report_name :: string
  report_title :: string
  mailto :: string
  error_mailto :: string
  overrides :: 'ov
  generate_pdf_output :: bool
  hide_code :: bool
  prepare_only :: "bool option"
  scheduler_job_id :: "string option"
  run_synchronously :: "bool option"
  mailfrom :: string
  email_subject :: string
  is_slideshow :: bool

text \<open>
  What a route can raise: \<^verbatim>\<open>abort(code)\<close> of flask, and the \<^verbatim>\<open>RuntimeError\<close> that
  \<^verbatim>\<open>run_report_in_subprocess\<close> may raise.
\<close>

datatype exn = Abort nat | RuntimeError string

subsection \<open>\<^verbatim>\<open>_rerun_report\<close> (lines 241--266)\<close>

text \<open>The fields of a stored result that \<^verbatim>\<open>_rerun_report\<close> reads.\<close>

record 'ov check_result =
  result_report_name :: string
  result_report_title :: string
  result_mailto :: string
  result_error_mailto :: string
  result_overrides :: 'ov
  result_hide_code :: bool
  result_generate_pdf_output :: bool
  result_is_slideshow :: bool
  result_email_subject :: string
  result_mailfrom :: string

text \<open>Lines 245--246: the title of the new job.\<close>

definition rerun_prefix :: string where
  "rerun_prefix = ''Rerun of ''"

definition rerun_title :: "string \<Rightarrow> string" where
  "rerun_title t = (if startswith t rerun_prefix then t else rerun_prefix @ t)"

text \<open>Lines 250--265: the arguments of the call.\<close>

definition rerun_call ::
  "'cfg \<Rightarrow> 'ov check_result \<Rightarrow> bool \<Rightarrow> bool \<Rightarrow> ('cfg, 'ov) subprocess_call" where
  "rerun_call app_config r prep sync =
     \<lparr> base_config = app_config,
       report_name = result_report_name r,
       report_title = rerun_title (result_report_title r),
       mailto = result_mailto r,
       error_mailto = result_error_mailto r,
       overrides = result_overrides r,
       generate_pdf_output = result_generate_pdf_output r,
       hide_code = result_hide_code r,
       prepare_only = Some prep,
       scheduler_job_id = None,
       run_synchronously = Some sync,
       mailfrom = result_mailfrom r,
       email_subject = result_email_subject r,
       is_slideshow = result_is_slideshow r \<rparr>"

text \<open>
  \<^verbatim>\<open>_rerun_report(job_id, prepare_only, run_synchronously)\<close>. The serializer's
  \<^verbatim>\<open>get_check_result\<close> and \<^verbatim>\<open>run_report_in_subprocess\<close> are parameters; the list
  of calls made so far is threaded through, so that a call is visible in the result.
  A missing result aborts with 404 before any call; a \<^verbatim>\<open>RuntimeError\<close> of the
  subprocess launcher is not caught here.
\<close>

definition rerun_report_internal ::
  "(string \<Rightarrow> 'ov check_result option) \<Rightarrow> (('cfg, 'ov) subprocess_call \<Rightarrow> string + string) \<Rightarrow> 'cfg
   \<Rightarrow> string \<Rightarrow> bool \<Rightarrow> bool \<Rightarrow> ('cfg, 'ov) subprocess_call list
   \<Rightarrow> (exn + string) \<times> ('cfg, 'ov) subprocess_call list" where
  "rerun_report_internal get_check_result run_report_in_subprocess app_config job_id prep sync calls =
     (case get_check_result job_id of
        None \<Rightarrow> (Inl (Abort 404), calls)
      | Some r \<Rightarrow>
          (let c = rerun_call app_config r prep sync in
           (case run_report_in_subprocess c of
              Inl msg \<Rightarrow> (Inl (RuntimeError msg), calls @ [c])
            | Inr new_job_id \<Rightarrow> (Inr new_job_id, calls @ [c]))))"

subsection \<open>\<^verbatim>\<open>validate_run_params\<close> and \<^verbatim>\<open>_handle_run_report\<close> (lines 122--206)\<close>

record run_report_params =
  p_report_title :: string
  p_mailto :: string
  p_error_mailto :: string
  p_mailfrom :: string
  p_generate_pdf_output :: bool
  p_hide_code :: bool
  p_scheduler_job_id :: "string option"
  p_is_slideshow :: bool
  p_email_subject :: string

text \<open>
  The validators of \<^verbatim>\<open>notebooker.utils.web\<close> are parameters: each takes the value
  and the issues list, and returns the cleansed value and the issues list as it left it
  (the Python mutates the list in place). Request values are strings, so
  \<^verbatim>\<open>x in ("on", "True", True)\<close> holds for the strings \<^verbatim>\<open>"on"\<close> and \<^verbatim>\<open>"True"\<close> only.
\<close>

record validators =
  validate_title :: "string \<Rightarrow> string list \<Rightarrow> string \<times> string list"
  validate_mailto :: "string option \<Rightarrow> string list \<Rightarrow> string \<times> string list"

text \<open>Python's \<^verbatim>\<open>params.get(k) or d\<close>: \<^verbatim>\<open>None\<close> and the empty string are falsy.\<close>

definition get_or :: "(string \<Rightarrow> string option) \<Rightarrow> string \<Rightarrow> string \<Rightarrow> string" where
  "get_or params k d = (case params k of None \<Rightarrow> d | Some v \<Rightarrow> if v = [] then d else v)"

definition is_on :: "(string \<Rightarrow> string option) \<Rightarrow> string \<Rightarrow> bool" where
  "is_on params k = (params k = Some ''on'' \<or> params k = Some ''True'')"

definition validate_run_params ::
  "validators \<Rightarrow> string \<Rightarrow> (string \<Rightarrow> string option) \<Rightarrow> string list
   \<Rightarrow> run_report_params \<times> string list" where
  "validate_run_params vs rname params issues =
     (let (title, i1) = validate_title vs (get_or params ''report_title'' rname) issues;
          (mto, i2) = validate_mailto vs (params ''mailto'') i1;
          (emto, i3) = validate_mailto vs (params ''error_mailto'') i2;
          (mfrom, i4) = validate_mailto vs (params ''mailfrom'') i3;
          (subj, i5) = validate_title vs (get_or params ''email_subject'' []) i4
      in (\<lparr> p_report_title = title, p_mailto = mto, p_error_mailto = emto, p_mailfrom = mfrom,
            p_generate_pdf_output = is_on params ''generate_pdf'',
            p_hide_code = is_on params ''hide_code'',
            p_scheduler_job_id = params ''scheduler_job_id'',
            p_is_slideshow = is_on params ''is_slideshow'',
            p_email_subject = subj \<rparr>, i5))"

text \<open>
  What the handler returns to flask: a bare \<^verbatim>\<open>jsonify(...)\<close>, or a triple of body,
  status code and headers. A JSON object is its list of fields.
\<close>

datatype flask_return =
  Json "(string \<times> string) list"
  | JsonStatus "(string \<times> string) list" nat "(string \<times> string) list"

definition run_call ::
  "'cfg \<Rightarrow> string \<Rightarrow> run_report_params \<Rightarrow> 'ov \<Rightarrow> ('cfg, 'ov) subprocess_call" where
  "run_call app_config rname ps ovs =
     \<lparr> base_config = app_config,
       report_name = rname,
       report_title = p_report_title ps,
       mailto = p_mailto ps,
       error_mailto = p_error_mailto ps,
       overrides = ovs,
       generate_pdf_output = p_generate_pdf_output ps,
       hide_code = p_hide_code ps,
       prepare_only = None,
       scheduler_job_id = p_scheduler_job_id ps,
       run_synchronously = None,
       mailfrom = p_mailfrom ps,
       email_subject = p_email_subject ps,
       is_slideshow = p_is_slideshow ps \<rparr>"

text \<open>
  \<^verbatim>\<open>_handle_run_report(report_name, overrides_dict, issues)\<close>, with the request values,
  the helpers it imports and the list of subprocess calls made so far as further
  arguments. It returns the response, the issues list and the calls.
\<close>

record ('cfg, 'ov) helpers =
  the_validators :: validators
  convert_report_name_url_to_path :: "string \<Rightarrow> string"
  run_report_in_subprocess :: "('cfg, 'ov) subprocess_call \<Rightarrow> string + string"
  url_for_task_status :: "string \<Rightarrow> string \<Rightarrow> string"
  app_config :: 'cfg

definition handle_run_report ::
  "('cfg, 'ov) helpers \<Rightarrow> (string \<Rightarrow> string option) \<Rightarrow> string \<Rightarrow> 'ov \<Rightarrow> string list
   \<Rightarrow> ('cfg, 'ov) subprocess_call list
   \<Rightarrow> flask_return \<times> string list \<times> ('cfg, 'ov) subprocess_call list" where
  "handle_run_report h request_values rname overrides_dict issues calls =
     (let (ps, issues') = validate_run_params (the_validators h) rname request_values issues in
      if issues' \<noteq> [] then
        (Json [(''status'', ''Failed''), (''content'', join [newline] issues')], issues', calls)
      else
        (let rname' = convert_report_name_url_to_path h rname;
             c = run_call (app_config h) rname' ps overrides_dict in
         (case run_report_in_subprocess h c of
            Inr job_id \<Rightarrow>
              (JsonStatus [(''id'', job_id)] 202
                 [(''Location'', url_for_task_status h rname' job_id)], issues', calls @ [c])
          | Inl e \<Rightarrow>
              (JsonStatus [(''status'', ''Failed''),
                  (''content'', ''The job failed to initialise. Error: '' @ e)] 500 [],
               issues', calls @ [c]))))"

text \<open>
  \<^verbatim>\<open>run_checks_http\<close> (lines 225--238): a fresh issues list, override handling,
  then the handler. \<^verbatim>\<open>handle_overrides\<close> is imported from
  \<^verbatim>\<open>notebooker.web.handle_overrides\<close> and is a parameter here.
\<close>

definition run_checks_http ::
  "(string option \<Rightarrow> string list \<Rightarrow> 'ov \<times> string list) \<Rightarrow> ('cfg, 'ov) helpers
   \<Rightarrow> (string \<Rightarrow> string option) \<Rightarrow> string \<Rightarrow> ('cfg, 'ov) subprocess_call list
   \<Rightarrow> flask_return \<times> string list \<times> ('cfg, 'ov) subprocess_call list" where
  "run_checks_http handle_overrides h request_values rname calls =
     (let (overrides_dict, issues) = handle_overrides (request_values ''overrides'') [] in
      handle_run_report h request_values rname overrides_dict issues calls)"

section \<open>The statement shapes of the test file (tests/integration/test_handle_overrides.py)\<close>

subsection \<open>Characters\<close>

definition backslash :: char where
  "backslash = CHR 0x5C"

definition is_letter :: "char \<Rightarrow> bool" where
  "is_letter c = ((CHR ''a'' \<le> c \<and> c \<le> CHR ''z'') \<or> (CHR ''A'' \<le> c \<and> c \<le> CHR ''Z''))"

definition is_digit :: "char \<Rightarrow> bool" where
  "is_digit c = (CHR ''0'' \<le> c \<and> c \<le> CHR ''9'')"

subsection \<open>\<^verbatim>\<open>IMPORT_REGEX\<close> and \<^verbatim>\<open>VARIABLE_ASSIGNMENT_REGEX\<close> (lines 8--9)\<close>

text \<open>
  The two statement shapes the test file compiles:
  \<^verbatim>\<open>^(from [a-zA-Z0-9_.]+ )?import (?P<import_target>[a-zA-Z0-9_.]+)( as (?P<name>.+))?$\<close>
  and \<^verbatim>\<open>^(?P<variable_name>[a-zA-Z_]+) *= *(?P<value>.+)$\<close>. Each is written out
  as a function from the text to its groups. The character classes exclude the
  character that follows them in the pattern, so a greedy repetition is a
  \<open>takeWhile\<close>, and giving characters back never helps, except where \<^verbatim>\<open> *\<close> is
  followed by \<^verbatim>\<open>.+\<close>: there one space can be given back to the value. The dot
  matches no newline, and \<^verbatim>\<open>$\<close> matches at the end or before a final newline.
\<close>

definition is_module_char :: "char \<Rightarrow> bool" where
  "is_module_char c = (is_letter c \<or> is_digit c \<or> c = CHR ''_'' \<or> c = CHR ''.'')"

definition is_variable_char :: "char \<Rightarrow> bool" where
  "is_variable_char c = (is_letter c \<or> c = CHR ''_'')"

fun after_prefix :: "string \<Rightarrow> string \<Rightarrow> string option" where
  "after_prefix [] s = Some s"
| "after_prefix (p # ps) [] = None"
| "after_prefix (p # ps) (c # cs) = (if p = c then after_prefix ps cs else None)"

definition at_end :: "string \<Rightarrow> bool" where
  "at_end s = (s = [] \<or> s = [newline])"

definition dot_plus_end :: "string \<Rightarrow> string option" where
  "dot_plus_end s =
     (let g = takeWhile (\<lambda>c. c \<noteq> newline) s
      in if g \<noteq> [] \<and> at_end (dropWhile (\<lambda>c. c \<noteq> newline) s) then Some g else None)"

definition match_import :: "string \<Rightarrow> (string option \<times> string \<times> string option) option" where
  "match_import s =
     (let (from_module, s1) =
            (case after_prefix ''from '' s of
               None \<Rightarrow> (None, s)
             | Some r \<Rightarrow>
                 (case after_prefix '' '' (dropWhile is_module_char r) of
                    None \<Rightarrow> (None, s)
                  | Some r' \<Rightarrow>
                      if takeWhile is_module_char r = [] then (None, s)
                      else (Some (takeWhile is_module_char r), r')))
      in case after_prefix ''import '' s1 of
           None \<Rightarrow> None
         | Some r \<Rightarrow>
             (let target = takeWhile is_module_char r; r' = dropWhile is_module_char r
              in if target = [] then None
                 else if at_end r' then Some (from_module, target, None)
                 else (case after_prefix '' as '' r' of
                         None \<Rightarrow> None
                       | Some a \<Rightarrow>
                           map_option (\<lambda>g. (from_module, target, Some g)) (dot_plus_end a))))"

definition match_assignment :: "string \<Rightarrow> (string \<times> string) option" where
  "match_assignment s =
     (let name = takeWhile is_variable_char s;
          r1 = dropWhile (\<lambda>c. c = CHR '' '') (dropWhile is_variable_char s)
      in if name = [] then None
         else (case after_prefix ''='' r1 of
                 None \<Rightarrow> None
               | Some r2 \<Rightarrow>
                   (let v = dropWhile (\<lambda>c. c = CHR '' '') r2
                    in case dot_plus_end v of
                         Some g \<Rightarrow> Some (name, g)
                       | None \<Rightarrow>
                           if v = r2 then None
                           else map_option (\<lambda>g. (name, g)) (dot_plus_end (CHR '' '' # v)))))"

section \<open>Override handling, modelled from the specification\<close>

text \<open>
  \<^verbatim>\<open>handle_overrides\<close> is imported from \<^verbatim>\<open>notebooker.web.handle_overrides\<close>, which
  is not among the source files: only its caller (\<^verbatim>\<open>run_checks_http\<close>) and its test
  are. The definitions of this section follow the specification's sections 3 and 4.
  Python's own import machinery, expression evaluation and rendering of values are
  parameters (\<open>runtime\<close>); floating-point values are left out.
\<close>

subsection \<open>Values and the canonical JSON format (spec 4.3)\<close>

text \<open>
  Modelled from the spec: the "Python-native runtime value" of an EvaluationNamespace
  (section 3), which \<^verbatim>\<open>handle_overrides\<close> would hold. \<open>PObject t\<close> is any other
  object (a date/time object, a module, a class instance), with the name of its type.
\<close>

datatype pyval =
  PNone | PBool bool | PInt int | PStr string
  | PList "pyval list" | PTuple "pyval list" | PDict "(pyval \<times> pyval) list"
  | PObject string

text \<open>
  Modelled from the spec: the "canonical JSON-like format" of section 4.3 that the
  missing validator encodes into, as a JSON document.
\<close>

datatype json =
  JNull | JBool bool | JNum int | JStr string
  | JArr "json list" | JObj "(string \<times> json) list"

text \<open>
  Modelled from the spec: the type name in the "underlying error message" of a failed
  encoding (section 4.3), as Python's \<^verbatim>\<open>type(v).__name__\<close> gives it.
\<close>

fun type_name :: "pyval \<Rightarrow> string" where
  "type_name PNone = ''NoneType''"
| "type_name (PBool b) = ''bool''"
| "type_name (PInt i) = ''int''"
| "type_name (PStr s) = ''str''"
| "type_name (PList xs) = ''list''"
| "type_name (PTuple xs) = ''tuple''"
| "type_name (PDict kvs) = ''dict''"
| "type_name (PObject t) = t"

text \<open>
  Modelled from the spec: the decimal text of an integer, which the missing encoder
  needs for an integer key of a dictionary (\<^verbatim>\<open>str(i)\<close>).
\<close>

fun digits :: "nat \<Rightarrow> string" where
  "digits n =
     (if n < 10 then [''0123456789'' ! n] else digits (n div 10) @ [''0123456789'' ! (n mod 10)])"

definition str_of_int :: "int \<Rightarrow> string" where
  "str_of_int i = (if i < 0 then CHR ''-'' # digits (nat (- i)) else digits (nat i))"

text \<open>
  Modelled from the spec: the key of a JSON object for a dictionary key, part of the
  missing encoder of section 4.3. JSON keys are strings: \<^verbatim>\<open>json.dumps\<close> writes a
  string key as it is, \<^verbatim>\<open>True\<close>, \<^verbatim>\<open>False\<close> and \<^verbatim>\<open>None\<close> as \<^verbatim>\<open>true\<close>,
  \<^verbatim>\<open>false\<close> and \<^verbatim>\<open>null\<close>, an integer in decimal, and raises \<^verbatim>\<open>TypeError\<close> on
  any other key.
\<close>

fun key_string :: "pyval \<Rightarrow> string + string" where
  "key_string (PStr s) = Inr s"
| "key_string (PBool b) = Inr (if b then ''true'' else ''false'')"
| "key_string PNone = Inr ''null''"
| "key_string (PInt i) = Inr (str_of_int i)"
| "key_string k = Inl (''keys must be str, int, float, bool or None, not '' @ type_name k)"

text \<open>
  Modelled from the spec: the first failure among the parts of a value is the failure
  of the whole encoding (section 4.3, "value not encodable"); used by the missing
  encoder.
\<close>

fun collect :: "('e + 'a) list \<Rightarrow> 'e + 'a list" where
  "collect [] = Inr []"
| "collect (Inl e # rs) = Inl e"
| "collect (Inr x # rs) = (case collect rs of Inl e \<Rightarrow> Inl e | Inr xs \<Rightarrow> Inr (x # xs))"

text \<open>
  Modelled from the spec: "attempt to encode the value into the canonical JSON-like
  format" (section 4.3), the encoder the missing validator calls. \<open>Inl\<close> carries the
  underlying error message. A tuple is written as an array; "a raw date/time object, a
  custom class instance" is not encodable.
\<close>

fun encode :: "pyval \<Rightarrow> string + json" where
  "encode PNone = Inr JNull"
| "encode (PBool b) = Inr (JBool b)"
| "encode (PInt i) = Inr (JNum i)"
| "encode (PStr s) = Inr (JStr s)"
| "encode (PList xs) = map_sum id JArr (collect (map encode xs))"
| "encode (PTuple xs) = map_sum id JArr (collect (map encode xs))"
| "encode (PDict kvs) =
     map_sum id JObj (collect (map (\<lambda>(k, v).
        case key_string k of
          Inl e \<Rightarrow> Inl e
        | Inr ks \<Rightarrow> (case encode v of Inl e \<Rightarrow> Inl e | Inr j \<Rightarrow> Inr (ks, j))) kvs))"
| "encode (PObject t) = Inl (''Object of type '' @ t @ '' is not JSON serializable'')"

text \<open>
  Modelled from the spec: assignment into an insertion-ordered mapping ("mapping from
  variable name (unique, insertion order ... preserved)", section 3), used for the
  missing namespace and for a decoded JSON object: a key already present keeps its
  place and takes the new value.
\<close>

fun dict_set :: "('k \<times> 'v) list \<Rightarrow> 'k \<Rightarrow> 'v \<Rightarrow> ('k \<times> 'v) list" where
  "dict_set [] k v = [(k, v)]"
| "dict_set ((k', v') # d) k v = (if k' = k then (k, v) # d else (k', v') # dict_set d k v)"

text \<open>
  Modelled from the spec: the dictionary built from the members of a JSON object, in
  the missing decoder of section 4.3; of two members with one key the later value
  stays.
\<close>

definition dict_of_items :: "('k \<times> 'v) list \<Rightarrow> ('k \<times> 'v) list" where
  "dict_of_items items = foldl (\<lambda>d (k, v). dict_set d k v) [] items"

text \<open>
  Modelled from the spec: "and decode it back" (section 4.3), the decoder the missing
  validator calls. An array is decoded to a list.
\<close>

fun decode :: "json \<Rightarrow> pyval" where
  "decode JNull = PNone"
| "decode (JBool b) = PBool b"
| "decode (JNum i) = PInt i"
| "decode (JStr s) = PStr s"
| "decode (JArr js) = PList (map decode js)"
| "decode (JObj kvs) = PDict (dict_of_items (map (\<lambda>(k, j). (PStr k, decode j)) kvs))"

subsection \<open>The Serializability Validator (spec 4.3)\<close>

text \<open>
  Modelled from the spec: the double quote around the parameter's name in the Issue of
  section 4.3, which the missing validator writes.
\<close>

definition quote :: char where
  "quote = CHR 0x22"

text \<open>
  Modelled from the spec: the Issue of a failed serialisation (section 4.3), which the
  missing validator appends. The rendering of the value is a parameter.
\<close>

definition serialise_issue :: "(pyval \<Rightarrow> string) \<Rightarrow> string \<Rightarrow> string \<Rightarrow> pyval \<Rightarrow> string" where
  "serialise_issue render name err v =
     ''Could not JSON serialise a parameter ('' @ [quote] @ name @ [quote]
       @ '') - this must be serialisable so that we can execute the notebook with it! (Error: ''
       @ err @ '', Value: '' @ render v @ '')''"

text \<open>
  Modelled from the spec: the Serializability Validator of section 4.3, a part of the
  missing \<^verbatim>\<open>handle_overrides\<close>. For every bound name in order: a value that encodes
  is kept, a value that does not adds one Issue and is left out. The spec says the kept
  value "may be the decoded round-tripped form"; \<open>decoded\<close> selects that form, and the
  value as bound otherwise.
\<close>

fun validate ::
  "(pyval \<Rightarrow> string) \<Rightarrow> bool \<Rightarrow> (string \<times> pyval) list \<Rightarrow> string list
   \<Rightarrow> (string \<times> pyval) list \<times> string list" where
  "validate render decoded [] found = ([], found)"
| "validate render decoded ((name, v) # rest) found =
     (case encode v of
        Inl err \<Rightarrow> validate render decoded rest (found @ [serialise_issue render name err v])
      | Inr j \<Rightarrow>
          (let (kept, found') = validate render decoded rest found
           in ((name, if decoded then decode j else v) # kept, found')))"

subsection \<open>The Statement Parser (spec 4.1)\<close>

text \<open>
  Modelled from the spec: the whitespace that makes an input "blank" (section 4.1), as
  Python's \<^verbatim>\<open>str.strip\<close> removes it in ASCII; used by the missing parser.
\<close>

definition is_space :: "char \<Rightarrow> bool" where
  "is_space c = (c \<in> set [CHR 0x20, CHR 0x09, CHR 0x0A, CHR 0x0B, CHR 0x0C, CHR 0x0D,
                            CHR 0x1C, CHR 0x1D, CHR 0x1E, CHR 0x1F])"

text \<open>
  Modelled from the spec: a statement's text without the whitespace around it, in the
  missing parser (section 4.1).
\<close>

definition strip :: "string \<Rightarrow> string" where
  "strip s = rev (dropWhile is_space (rev (dropWhile is_space s)))"

text \<open>
  Modelled from the spec: "Backslash line-continuation joining two physical lines into
  one logical statement" (section 4.1), in the missing parser.
\<close>

fun join_continuations :: "string \<Rightarrow> string" where
  "join_continuations [] = []"
| "join_continuations [c] = [c]"
| "join_continuations (c # d # cs) =
     (if c = backslash \<and> d = newline then join_continuations cs
      else c # join_continuations (d # cs))"

text \<open>
  Modelled from the spec: "Multiple statements separated by newlines or semicolons"
  (section 4.1), the separators of the missing parser.
\<close>

definition is_separator :: "char \<Rightarrow> bool" where
  "is_separator c = (c = newline \<or> c = CHR '';'')"

text \<open>
  Modelled from the spec: the pieces of a text between separators, in the missing
  parser (section 4.1).
\<close>

fun split_where :: "(char \<Rightarrow> bool) \<Rightarrow> string \<Rightarrow> string list" where
  "split_where p [] = [[]]"
| "split_where p (c # cs) =
     (if p c then [] # split_where p cs
      else (case split_where p cs of [] \<Rightarrow> [[c]] | x # xs \<Rightarrow> (c # x) # xs))"

text \<open>
  Modelled from the spec: the logical statements of a raw override text (section 4.1),
  in the missing parser: continuations joined, the text split at the separators, each
  piece stripped, and the empty pieces dropped ("Empty/blank input: empty statement
  sequence").
\<close>

definition logical_statements :: "string \<Rightarrow> string list" where
  "logical_statements text =
     filter (\<lambda>s. s \<noteq> []) (map strip (split_where is_separator (join_continuations text)))"

text \<open>
  Modelled from the spec: the OverrideStatement of section 3, which the missing parser
  produces: an import (the module after \<^verbatim>\<open>from\<close> if any, the target, the alias if
  any), an assignment (target name, expression text) or a bare expression.
\<close>

datatype statement =
  Import "string option" string "string option"
  | Assignment string string
  | BareExpression string

text \<open>
  Modelled from the spec: "Recognize two shapes via pattern matching on
  logical-statement text ... Anything matching neither shape is treated as a bare
  expression statement" (section 4.1), in the missing parser. The shapes are the two
  patterns of the test file.
\<close>

definition classify :: "string \<Rightarrow> statement" where
  "classify s =
     (case match_import s of
        Some (from_module, target, alias) \<Rightarrow> Import from_module target alias
      | None \<Rightarrow>
          (case match_assignment s of
             Some (name, expr) \<Rightarrow> Assignment name expr
           | None \<Rightarrow> BareExpression s))"

text \<open>
  Modelled from the spec: the Statement Parser of section 4.1, a part of the missing
  \<^verbatim>\<open>handle_overrides\<close>: "given the raw override text (possibly empty/None), produce
  an ordered sequence of OverrideStatement".
\<close>

definition parse_statements :: "string option \<Rightarrow> statement list" where
  "parse_statements text =
     (case text of None \<Rightarrow> [] | Some t \<Rightarrow> map classify (logical_statements t))"

subsection \<open>The Sandboxed Evaluator (spec 4.2)\<close>

text \<open>
  Modelled from the spec: how a name of the missing namespace was bound. Section 4.2
  binds imports and assignment targets in one namespace; the validator is run "for
  every bound variable" (section 2), and scenario 2 of section 8 (an import, then an
  assignment, no issue) shows that an imported module is not validated.
\<close>

datatype binding = Imported pyval | Assigned pyval

text \<open>Modelled from the spec: the value of a binding of the missing namespace.\<close>

fun bound_value :: "binding \<Rightarrow> pyval" where
  "bound_value (Imported v) = v"
| "bound_value (Assigned v) = v"

text \<open>
  Modelled from the spec: what the missing evaluator asks of the host language
  (section 4.2): resolving an import, and evaluating an expression text in the current
  bindings, each giving the value or the underlying error message; the type name of a
  dead expression's Issue; the rendering of a value in a serialisation Issue. The spec
  names the type of a dead expression's value, the test the class of its syntax node;
  \<open>describe_type\<close> is given both the text and the value.
\<close>

record runtime =
  resolve_import :: "string option \<Rightarrow> string \<Rightarrow> string + pyval"
  eval_expression :: "(string \<times> pyval) list \<Rightarrow> string \<Rightarrow> string + pyval"
  describe_type :: "string \<Rightarrow> pyval \<Rightarrow> string"
  render_value :: "pyval \<Rightarrow> string"

text \<open>
  Modelled from the spec: the state the missing evaluator threads through the
  statements: the EvaluationNamespace and the Issue list (section 3).
\<close>

record eval_state =
  st_namespace :: "(string \<times> binding) list"
  st_issues :: "string list"

text \<open>
  Modelled from the spec: the Issue of a failed import or evaluation (section 4.2),
  appended by the missing evaluator.
\<close>

definition error_issue :: "string \<Rightarrow> string" where
  "error_issue msg = ''An error was encountered: '' @ msg"

text \<open>
  Modelled from the spec: the Issue of a dead expression (section 4.2), appended by the
  missing evaluator.
\<close>

definition dead_expression_issue :: "string \<Rightarrow> string" where
  "dead_expression_issue tn = ''Found an expression that did nothing! It has a value of type: '' @ tn"

text \<open>Modelled from the spec: appending an Issue, in the missing evaluator (section 3).\<close>

definition add_issue :: "string \<Rightarrow> eval_state \<Rightarrow> eval_state" where
  "add_issue i st = st\<lparr> st_issues := st_issues st @ [i] \<rparr>"

text \<open>
  Modelled from the spec: binding a name in the namespace, in the missing evaluator
  (section 4.2).
\<close>

definition bind_name :: "string \<Rightarrow> binding \<Rightarrow> eval_state \<Rightarrow> eval_state" where
  "bind_name n b st = st\<lparr> st_namespace := dict_set (st_namespace st) n b \<rparr>"

text \<open>
  Modelled from the spec: "the current namespace as the only available bindings"
  (section 4.2), as the missing evaluator hands them to the expression evaluator.
\<close>

definition visible :: "eval_state \<Rightarrow> (string \<times> pyval) list" where
  "visible st = map (\<lambda>(n, b). (n, bound_value b)) (st_namespace st)"

text \<open>
  Modelled from the spec: one statement of the missing Sandboxed Evaluator (section
  4.2). A failure appends an Issue, binds nothing, and evaluation continues with the
  next statement; a bare expression with a non-null value appends the dead-expression
  Issue.
\<close>

fun exec_statement :: "runtime \<Rightarrow> statement \<Rightarrow> eval_state \<Rightarrow> eval_state" where
  "exec_statement rt (Import from_module target alias) st =
     (case resolve_import rt from_module target of
        Inl msg \<Rightarrow> add_issue (error_issue msg) st
      | Inr v \<Rightarrow> bind_name (case alias of None \<Rightarrow> target | Some a \<Rightarrow> a) (Imported v) st)"
| "exec_statement rt (Assignment name expr) st =
     (case eval_expression rt (visible st) expr of
        Inl msg \<Rightarrow> add_issue (error_issue msg) st
      | Inr v \<Rightarrow> bind_name name (Assigned v) st)"
| "exec_statement rt (BareExpression expr) st =
     (case eval_expression rt (visible st) expr of
        Inl msg \<Rightarrow> add_issue (error_issue msg) st
      | Inr v \<Rightarrow>
          if v = PNone then st
          else add_issue (dead_expression_issue (describe_type rt expr v)) st)"

text \<open>
  Modelled from the spec: the missing Sandboxed Evaluator (section 4.2): "process
  statements in order against a single mutable namespace".
\<close>

fun run_statements :: "runtime \<Rightarrow> statement list \<Rightarrow> eval_state \<Rightarrow> eval_state" where
  "run_statements rt [] st = st"
| "run_statements rt (s # ss) st = run_statements rt ss (exec_statement rt s st)"

text \<open>
  Modelled from the spec: the bound variables the missing validator is run on (section
  2): the names whose binding is an assignment's, in the namespace's order.
\<close>

fun bound_variables :: "(string \<times> binding) list \<Rightarrow> (string \<times> pyval) list" where
  "bound_variables [] = []"
| "bound_variables ((n, Assigned v) # ns) = (n, v) # bound_variables ns"
| "bound_variables ((n, Imported v) # ns) = bound_variables ns"

text \<open>
  Modelled from the spec: \<^verbatim>\<open>handle_overrides(overrides_string, issues)\<close> of
  \<^verbatim>\<open>notebooker.web.handle_overrides\<close>, which is missing: the control flow of section
  2, "raw string, Statement Parser, ordered statement list, Sandboxed Evaluator,
  Serializability Validator, final mapping plus an issues list". The caller's issues
  list is extended; the mapping is returned.
\<close>

definition handle_overrides ::
  "runtime \<Rightarrow> bool \<Rightarrow> string option \<Rightarrow> string list \<Rightarrow> (string \<times> pyval) list \<times> string list" where
  "handle_overrides rt decoded text found =
     (let st = run_statements rt (parse_statements text) \<lparr> st_namespace = [], st_issues = found \<rparr>
      in validate (render_value rt) decoded (bound_variables (st_namespace st)) (st_issues st))"

section \<open>Properties of the routes\<close>

lemma rerun_title_startswith: "startswith (rerun_title t) rerun_prefix"
  by (simp add: rerun_title_def startswith_def)

lemma rerun_title_idem: "rerun_title (rerun_title t) = rerun_title t"
  using rerun_title_startswith [of t] by (simp add: rerun_title_def [of "rerun_title t"])

lemma rerun_title_funpow: "(rerun_title ^^ Suc n) t = rerun_title t"
  by (induction n) (simp_all add: rerun_title_idem)

text \<open>
  Claim C10. For every stored result, \<^verbatim>\<open>_rerun_report\<close> makes exactly one call to
  \<^verbatim>\<open>run_report_in_subprocess\<close>; its title is \<^verbatim>\<open>"Rerun of "\<close> followed by the stored
  title, unless the stored title already starts with \<^verbatim>\<open>"Rerun of "\<close>, in which case
  it is the stored title unchanged; its overrides are the stored overrides. The title
  starts with the prefix, a rerun of a result stored under that title submits the same
  title again, and so does any number of reruns in a row.
\<close>

theorem rerun_report_title_idempotent:
  assumes "get_check_result job_id = Some r"
  shows "snd (rerun_report_internal get_check_result run cfg job_id prep sync calls)
           = calls @ [rerun_call cfg r prep sync]
       \<and> report_title (rerun_call cfg r prep sync)
           = (if startswith (result_report_title r) ''Rerun of '' then result_report_title r
              else ''Rerun of '' @ result_report_title r)
       \<and> overrides (rerun_call cfg r prep sync) = result_overrides r
       \<and> (result_report_title r' = report_title (rerun_call cfg r prep sync)
            \<longrightarrow> report_title (rerun_call cfg r' prep' sync') = result_report_title r')
       \<and> (rerun_title ^^ Suc n) (result_report_title r) = report_title (rerun_call cfg r prep sync)"
proof -
  let ?c = "rerun_call cfg r prep sync"
  have calls: "snd (rerun_report_internal get_check_result run cfg job_id prep sync calls) = calls @ [?c]"
    using assms by (simp add: rerun_report_internal_def Let_def split: sum.split)
  have title: "report_title ?c = rerun_title (result_report_title r)"
    by (simp add: rerun_call_def)
  have unfolded: "rerun_title (result_report_title r)
      = (if startswith (result_report_title r) ''Rerun of '' then result_report_title r
         else ''Rerun of '' @ result_report_title r)"
    by (simp add: rerun_title_def rerun_prefix_def)
  have ovs: "overrides ?c = result_overrides r"
    by (simp add: rerun_call_def)
  have again: "result_report_title r' = report_title ?c
      \<longrightarrow> report_title (rerun_call cfg r' prep' sync') = result_report_title r'"
  proof
    assume eq: "result_report_title r' = report_title ?c"
    have "report_title (rerun_call cfg r' prep' sync') = rerun_title (result_report_title r')"
      by (simp add: rerun_call_def)
    also have "\<dots> = rerun_title (rerun_title (result_report_title r))"
      using eq title by simp
    also have "\<dots> = rerun_title (result_report_title r)"
      by (rule rerun_title_idem)
    finally show "report_title (rerun_call cfg r' prep' sync') = result_report_title r'"
      using eq title by simp
  qed
  have many: "(rerun_title ^^ Suc n) (result_report_title r) = report_title ?c"
    using rerun_title_funpow [of n "result_report_title r"] title by simp
  from calls title unfolded ovs again many show ?thesis by simp
qed

theorem rerun_report_title_idempotent_witness:
  "snd (rerun_report_internal
          [''job1'' \<mapsto> \<lparr> result_report_name = ''sales'', result_report_title = ''Daily sales'',
             result_mailto = [], result_error_mailto = [],
             result_overrides = [(''n'', 3::int)], result_hide_code = False,
             result_generate_pdf_output = True, result_is_slideshow = False,
             result_email_subject = [], result_mailfrom = [] \<rparr>]
          (\<lambda>c. Inr ''job2'') () ''job1'' False False [])
     = [\<lparr> base_config = (), report_name = ''sales'', report_title = ''Rerun of Daily sales'',
          mailto = [], error_mailto = [], overrides = [(''n'', 3::int)],
          generate_pdf_output = True, hide_code = False, prepare_only = Some False,
          scheduler_job_id = None, run_synchronously = Some False, mailfrom = [],
          email_subject = [], is_slideshow = False \<rparr>]
   \<and> report_title (rerun_call ()
         \<lparr> result_report_name = ''sales'', result_report_title = ''Rerun of Daily sales'',
           result_mailto = [], result_error_mailto = [],
           result_overrides = [(''n'', 3::int)], result_hide_code = False,
           result_generate_pdf_output = True, result_is_slideshow = False,
           result_email_subject = [], result_mailfrom = [] \<rparr> False False)
       = ''Rerun of Daily sales''
   \<and> (rerun_title ^^ 3) ''Daily sales'' = ''Rerun of Daily sales''"
  using rerun_report_title_idempotent
    [of "[''job1'' \<mapsto> \<lparr> result_report_name = ''sales'', result_report_title = ''Daily sales'',
             result_mailto = [], result_error_mailto = [],
             result_overrides = [(''n'', 3::int)], result_hide_code = False,
             result_generate_pdf_output = True, result_is_slideshow = False,
             result_email_subject = [], result_mailfrom = [] \<rparr>]"
        "''job1''"
        "\<lparr> result_report_name = ''sales'', result_report_title = ''Daily sales'',
             result_mailto = [], result_error_mailto = [],
             result_overrides = [(''n'', 3::int)], result_hide_code = False,
             result_generate_pdf_output = True, result_is_slideshow = False,
             result_email_subject = [], result_mailfrom = [] \<rparr>"
        "\<lambda>c. Inr ''job2''" "()" False False "[]"
        "\<lparr> result_report_name = ''sales'', result_report_title = ''Rerun of Daily sales'',
             result_mailto = [], result_error_mailto = [],
             result_overrides = [(''n'', 3::int)], result_hide_code = False,
             result_generate_pdf_output = True, result_is_slideshow = False,
             result_email_subject = [], result_mailfrom = [] \<rparr>"
        False False 2]
  by (simp add: rerun_call_def rerun_title_def rerun_prefix_def startswith_def)

text \<open>
  Claim C5. Whenever the issues list is non-empty after run-parameter validation,
  \<^verbatim>\<open>_handle_run_report\<close> returns the bare JSON object with \<^verbatim>\<open>status\<close>
  \<^verbatim>\<open>"Failed"\<close> and \<^verbatim>\<open>content\<close> the issues joined by newlines, and the list of calls
  to \<^verbatim>\<open>run_report_in_subprocess\<close> is as it was: no job is started. The same holds for
  \<^verbatim>\<open>run_checks_http\<close>, whatever \<^verbatim>\<open>handle_overrides\<close> returned, when the issues are
  non-empty after override handling and validation.
\<close>

theorem handle_run_report_issues_abort:
  assumes "snd (validate_run_params (the_validators h) rname request_values issues) = issues'"
    and "issues' \<noteq> []"
  shows "handle_run_report h request_values rname overrides_dict issues calls
           = (Json [(''status'', ''Failed''), (''content'', join [newline] issues')], issues', calls)
       \<and> (ho (request_values ''overrides'') [] = (overrides_dict, issues)
            \<longrightarrow> run_checks_http ho h request_values rname calls
                = (Json [(''status'', ''Failed''), (''content'', join [newline] issues')],
                   issues', calls))"
proof -
  obtain ps where v: "validate_run_params (the_validators h) rname request_values issues = (ps, issues')"
    using assms(1) by (cases "validate_run_params (the_validators h) rname request_values issues") simp
  have handler: "handle_run_report h request_values rname overrides_dict issues calls
      = (Json [(''status'', ''Failed''), (''content'', join [newline] issues')], issues', calls)"
    using v assms(2) by (simp add: handle_run_report_def)
  then show ?thesis
    by (simp add: run_checks_http_def)
qed

theorem handle_run_report_issues_abort_witness:
  "handle_run_report
     \<lparr> the_validators = \<lparr> validate_title = (\<lambda>t is. (t, is)),
                          validate_mailto = (\<lambda>m is. ([], is)) \<rparr>,
       convert_report_name_url_to_path = (\<lambda>n. n),
       run_report_in_subprocess = (\<lambda>c. Inr ''job1''),
       url_for_task_status = (\<lambda>n j. n @ j),
       app_config = () \<rparr>
     Map.empty ''sales'' [(''n'', 3::int)]
     [''An error was encountered: name 'x' is not defined'', ''second issue''] []
   = (Json [(''status'', ''Failed''),
            (''content'', ''An error was encountered: name 'x' is not defined'' @ [CHR 0x0A]
                 @ ''second issue'')],
      [''An error was encountered: name 'x' is not defined'', ''second issue''], [])
   \<and> run_checks_http
       (\<lambda>text is. ([(''n'', 3::int)],
          is @ [''An error was encountered: name 'x' is not defined'', ''second issue'']))
       \<lparr> the_validators = \<lparr> validate_title = (\<lambda>t is. (t, is)),
                          validate_mailto = (\<lambda>m is. ([], is)) \<rparr>,
         convert_report_name_url_to_path = (\<lambda>n. n),
         run_report_in_subprocess = (\<lambda>c. Inr ''job1''),
         url_for_task_status = (\<lambda>n j. n @ j),
         app_config = () \<rparr>
       Map.empty ''sales'' []
     = (Json [(''status'', ''Failed''),
            (''content'', ''An error was encountered: name 'x' is not defined'' @ [CHR 0x0A]
                 @ ''second issue'')],
        [''An error was encountered: name 'x' is not defined'', ''second issue''], [])"
  using handle_run_report_issues_abort
    [of "\<lparr> the_validators = \<lparr> validate_title = (\<lambda>t is. (t, is)),
                          validate_mailto = (\<lambda>m is. ([], is)) \<rparr>,
       convert_report_name_url_to_path = (\<lambda>n. n),
       run_report_in_subprocess = (\<lambda>c. Inr ''job1''),
       url_for_task_status = (\<lambda>n j. n @ j),
       app_config = () \<rparr>" "''sales''" Map.empty
       "[''An error was encountered: name 'x' is not defined'', ''second issue'']"
       "[''An error was encountered: name 'x' is not defined'', ''second issue'']"
       "[(''n'', 3::int)]" "[]"
       "\<lambda>text is. ([(''n'', 3::int)],
          is @ [''An error was encountered: name 'x' is not defined'', ''second issue''])"]
  by (simp add: validate_run_params_def get_or_def is_on_def newline_def)

section \<open>Properties of the modelled override handling\<close>

subsection \<open>Encoding and decoding\<close>

lemma collect_all_Inr:
  "(\<And>x. x \<in> set xs \<Longrightarrow> \<exists>y. f x = Inr y) \<Longrightarrow> collect (map f xs) = Inr (map (\<lambda>x. projr (f x)) xs)"
proof (induction xs)
  case Nil
  show ?case by simp
next
  case (Cons a xs)
  from Cons.prems obtain y where y: "f a = Inr y" by auto
  have "collect (map f xs) = Inr (map (\<lambda>x. projr (f x)) xs)"
    using Cons.IH Cons.prems by simp
  with y show ?case by simp
qed

lemma dict_set_keys:
  "map fst (dict_set d k v) = (if k \<in> fst ` set d then map fst d else map fst d @ [k])"
  by (induction d) force+

lemma dict_set_fresh: "k \<notin> fst ` set d \<Longrightarrow> dict_set d k v = d @ [(k, v)]"
  by (induction d) auto

lemma dict_set_subset: "set (dict_set d k v) \<subseteq> insert (k, v) (set d)"
  by (induction d) (auto split: if_splits)

lemma dict_set_distinct: "distinct (map fst d) \<Longrightarrow> distinct (map fst (dict_set d k v))"
  by (simp add: dict_set_keys)

lemma foldl_dict_set_subset:
  "set (foldl (\<lambda>d (k, v). dict_set d k v) acc xs) \<subseteq> set acc \<union> set xs"
proof (induction xs arbitrary: acc)
  case Nil
  show ?case by simp
next
  case (Cons x xs)
  obtain k v where x: "x = (k, v)" by (cases x)
  have "set (foldl (\<lambda>d (k, v). dict_set d k v) (dict_set acc k v) xs)
      \<subseteq> set (dict_set acc k v) \<union> set xs"
    by (rule Cons.IH)
  also have "\<dots> \<subseteq> set acc \<union> set ((k, v) # xs)"
    using dict_set_subset [of acc k v] by auto
  finally show ?case by (simp add: x)
qed

lemma foldl_dict_set_distinct:
  "distinct (map fst acc) \<Longrightarrow> distinct (map fst (foldl (\<lambda>d (k, v). dict_set d k v) acc xs))"
proof (induction xs arbitrary: acc)
  case Nil
  then show ?case by simp
next
  case (Cons x xs)
  obtain k v where x: "x = (k, v)" by (cases x)
  show ?case using Cons.IH [OF dict_set_distinct [OF Cons.prems, of k v]] by (simp add: x)
qed

lemma foldl_dict_set_id:
  "distinct (map fst (acc @ xs)) \<Longrightarrow> foldl (\<lambda>d (k, v). dict_set d k v) acc xs = acc @ xs"
proof (induction xs arbitrary: acc)
  case Nil
  show ?case by simp
next
  case (Cons x xs)
  obtain k v where x: "x = (k, v)" by (cases x)
  from Cons.prems have fresh: "k \<notin> fst ` set acc" by (auto simp: x)
  have step: "dict_set acc k v = acc @ [(k, v)]" by (rule dict_set_fresh [OF fresh])
  have "distinct (map fst ((acc @ [(k, v)]) @ xs))" using Cons.prems by (simp add: x)
  from Cons.IH [OF this] show ?case by (simp add: x step)
qed

lemma dict_of_items_subset: "set (dict_of_items xs) \<subseteq> set xs"
  using foldl_dict_set_subset [of "[]" xs] by (simp add: dict_of_items_def)

lemma dict_of_items_distinct: "distinct (map fst (dict_of_items xs))"
  using foldl_dict_set_distinct [of "[]" xs] by (simp add: dict_of_items_def)

lemma dict_of_items_id: "distinct (map fst xs) \<Longrightarrow> dict_of_items xs = xs"
  using foldl_dict_set_id [of "[]" xs] by (simp add: dict_of_items_def)

text \<open>
  A decoded value encodes, and decodes again to itself: the round trip is the identity
  on what it produces (it is not on a tuple, or on a dictionary with an integer key).
\<close>

lemma encode_decode:
  "\<exists>j'. encode (decode j) = Inr j' \<and> decode j' = decode j"
proof (induction j)
  case (JArr js)
  have each: "\<And>v. v \<in> set (map decode js) \<Longrightarrow> \<exists>y. encode v = Inr y"
    using JArr.IH by auto
  have enc: "encode (PList (map decode js))
      = Inr (JArr (map (\<lambda>v. projr (encode v)) (map decode js)))"
    using collect_all_Inr [of "map decode js" encode, OF each] by simp
  have redecoded: "map decode (map (\<lambda>v. projr (encode v)) (map decode js)) = map decode js"
  proof -
    have "\<And>j. j \<in> set js \<Longrightarrow> decode (projr (encode (decode j))) = decode j"
    proof -
      fix j assume "j \<in> set js"
      from JArr.IH [OF this] obtain j' where "encode (decode j) = Inr j'" "decode j' = decode j"
        by blast
      then show "decode (projr (encode (decode j))) = decode j" by simp
    qed
    then show ?thesis by simp
  qed
  show ?case using enc redecoded by simp
next
  case (JObj kvs)
  let ?items = "map (\<lambda>(k, j). (PStr k, decode j)) kvs"
  let ?d = "dict_of_items ?items"
  let ?f = "\<lambda>(k, v). case key_string k of
          Inl e \<Rightarrow> Inl e
        | Inr ks \<Rightarrow> (case encode v of Inl e \<Rightarrow> Inl e | Inr j \<Rightarrow> Inr (ks, j))"
  have members: "\<And>x. x \<in> set ?d \<Longrightarrow>
      \<exists>ks j j'. x = (PStr ks, decode j) \<and> encode (decode j) = Inr j' \<and> decode j' = decode j"
  proof -
    fix x assume "x \<in> set ?d"
    then have "x \<in> set ?items" using dict_of_items_subset by blast
    then obtain ks j where kj: "(ks, j) \<in> set kvs" and x: "x = (PStr ks, decode j)" by auto
    have "j \<in> Basic_BNFs.snds (ks, j)" by simp
    from JObj.IH [OF kj this] obtain j' where "encode (decode j) = Inr j'" "decode j' = decode j"
      by blast
    with x show "\<exists>ks j j'. x = (PStr ks, decode j) \<and> encode (decode j) = Inr j'
        \<and> decode j' = decode j"
      by blast
  qed
  have each: "\<And>x. x \<in> set ?d \<Longrightarrow> \<exists>y. ?f x = Inr y"
  proof -
    fix x assume "x \<in> set ?d"
    from members [OF this] obtain ks j j' where "x = (PStr ks, decode j)"
      "encode (decode j) = Inr j'" by blast
    then show "\<exists>y. ?f x = Inr y" by simp
  qed
  have enc: "encode (PDict ?d) = Inr (JObj (map (\<lambda>x. projr (?f x)) ?d))"
    using collect_all_Inr [of ?d ?f, OF each] by simp
  have same: "map (\<lambda>(k, j). (PStr k, decode j)) (map (\<lambda>x. projr (?f x)) ?d) = ?d"
  proof -
    have "\<And>x. x \<in> set ?d \<Longrightarrow> (\<lambda>(k, j). (PStr k, decode j)) (projr (?f x)) = x"
    proof -
      fix x assume "x \<in> set ?d"
      from members [OF this] obtain ks j j' where "x = (PStr ks, decode j)"
        "encode (decode j) = Inr j'" "decode j' = decode j" by blast
      then show "(\<lambda>(k, j). (PStr k, decode j)) (projr (?f x)) = x" by simp
    qed
    then show ?thesis by (simp add: map_idI)
  qed
  have "decode (JObj (map (\<lambda>x. projr (?f x)) ?d)) = PDict (dict_of_items ?d)"
    using same by simp
  also have "dict_of_items ?d = ?d"
    by (rule dict_of_items_id [OF dict_of_items_distinct])
  finally show ?case using enc by simp
qed simp_all

subsection \<open>The validator\<close>

lemma validate_round_tripped:
  "validate render decoded (map (\<lambda>(n, j). (n, decode j)) kjs) found
   = (map (\<lambda>(n, j). (n, decode j)) kjs, found)"
proof (induction kjs)
  case Nil
  show ?case by simp
next
  case (Cons a kjs)
  obtain n j where a: "a = (n, j)" by (cases a)
  obtain j' where "encode (decode j) = Inr j'" "decode j' = decode j"
    using encode_decode by blast
  then show ?case using Cons.IH by (simp add: a)
qed

lemma validate_kept_fixed:
  "validate render decoded (fst (validate render decoded ns found)) found'
   = (fst (validate render decoded ns found), found')"
proof (induction ns arbitrary: found)
  case Nil
  show ?case by simp
next
  case (Cons a ns)
  obtain name v where a: "a = (name, v)" by (cases a)
  show ?case
  proof (cases "encode v")
    case (Inl err)
    then show ?thesis using Cons.IH by (simp add: a)
  next
    case (Inr j)
    obtain j' where j': "encode (decode j) = Inr j'" "decode j' = decode j"
      using encode_decode by blast
    show ?thesis using Inr j' Cons.IH [of found] by (cases decoded) (simp_all add: a split_beta)
  qed
qed

text \<open>
  Claim C8. The Serializability Validator is idempotent. Applied to a mapping whose
  values have been round-tripped (each is the decoding of a JSON document), it returns
  that mapping and the issues list unchanged; and applied to its own output and issues,
  it returns them unchanged. Both hold whether the validator keeps the decoded form or
  the value as bound.
\<close>

theorem validate_idempotent:
  "validate render decoded (map (\<lambda>(n, j). (n, decode j)) kjs) found
     = (map (\<lambda>(n, j). (n, decode j)) kjs, found)
   \<and> validate render decoded (fst (validate render decoded ns found))
        (snd (validate render decoded ns found))
     = validate render decoded ns found"
proof -
  have round_tripped: "validate render decoded (map (\<lambda>(n, j). (n, decode j)) kjs) found
      = (map (\<lambda>(n, j). (n, decode j)) kjs, found)"
    by (rule validate_round_tripped)
  obtain kept found' where result: "validate render decoded ns found = (kept, found')"
    by (cases "validate render decoded ns found")
  have "validate render decoded (fst (validate render decoded ns found)) found'
      = (fst (validate render decoded ns found), found')"
    by (rule validate_kept_fixed)
  then have own_output: "validate render decoded kept found' = (kept, found')"
    by (simp add: result)
  from round_tripped own_output show ?thesis
    by (simp add: result)
qed

theorem validate_idempotent_witness:
  "validate (\<lambda>v. ''?'') True
      [(''a'', PList [PInt 1, PStr ''x'']), (''m'', PDict [(PStr ''1'', PNone)])] []
     = ([(''a'', PList [PInt 1, PStr ''x'']), (''m'', PDict [(PStr ''1'', PNone)])], [])
   \<and> validate (\<lambda>v. ''?'') True
       [(''a'', PTuple [PInt 1, PStr ''x'']), (''d'', PObject ''datetime''),
        (''m'', PDict [(PInt 1, PNone)])] []
     = ([(''a'', PList [PInt 1, PStr ''x'']), (''m'', PDict [(PStr ''1'', PNone)])],
        [''Could not JSON serialise a parameter ('' @ [CHR 0x22] @ ''d'' @ [CHR 0x22]
          @ '') - this must be serialisable so that we can execute the notebook with it! ''
          @ ''(Error: Object of type datetime is not JSON serializable, Value: ?)''])
   \<and> validate (\<lambda>v. ''?'') True
       (fst (validate (\<lambda>v. ''?'') True
          [(''a'', PTuple [PInt 1, PStr ''x'']), (''d'', PObject ''datetime''),
           (''m'', PDict [(PInt 1, PNone)])] []))
       (snd (validate (\<lambda>v. ''?'') True
          [(''a'', PTuple [PInt 1, PStr ''x'']), (''d'', PObject ''datetime''),
           (''m'', PDict [(PInt 1, PNone)])] []))
     = validate (\<lambda>v. ''?'') True
          [(''a'', PTuple [PInt 1, PStr ''x'']), (''d'', PObject ''datetime''),
           (''m'', PDict [(PInt 1, PNone)])] []"
  using validate_idempotent
    [of "\<lambda>v. ''?''" True
        "[(''a'', JArr [JNum 1, JStr ''x'']), (''m'', JObj [(''1'', JNull)])]" "[]"
        "[(''a'', PTuple [PInt 1, PStr ''x'']), (''d'', PObject ''datetime''),
          (''m'', PDict [(PInt 1, PNone)])]"]
  by (simp add: dict_of_items_def serialise_issue_def quote_def str_of_int_def)

subsection \<open>The parser on blank input\<close>

lemma join_continuations_subset: "set (join_continuations s) \<subseteq> set s"
  by (induction s rule: join_continuations.induct) auto

lemma split_where_subset: "x \<in> set (split_where p s) \<Longrightarrow> set x \<subseteq> set s"
proof (induction s arbitrary: x)
  case Nil
  then show ?case by simp
next
  case (Cons c cs)
  show ?case
  proof (cases "p c")
    case True
    with Cons.prems have "x = [] \<or> x \<in> set (split_where p cs)" by simp
    then show ?thesis using Cons.IH by auto
  next
    case False
    show ?thesis
    proof (cases "split_where p cs")
      case Nil
      with False Cons.prems show ?thesis by simp
    next
      case (Cons y ys)
      with False Cons.prems have "x = c # y \<or> x \<in> set ys" by simp
      moreover have "set y \<subseteq> set cs" using Cons.IH [of y] Cons by simp
      moreover have "x \<in> set ys \<Longrightarrow> set x \<subseteq> set cs" using Cons.IH [of x] Cons by simp
      ultimately show ?thesis by auto
    qed
  qed
qed

lemma strip_blank: "list_all is_space s \<Longrightarrow> strip s = []"
proof -
  assume "list_all is_space s"
  then have "\<forall>x\<in>set s. is_space x" by (simp only: list_all_iff)
  then have d: "dropWhile is_space s = []" by (simp only: dropWhile_eq_Nil_conv)
  show "strip s = []" unfolding strip_def d by simp
qed

lemma logical_statements_blank:
  assumes "list_all is_space t"
  shows "logical_statements t = []"
proof -
  have "\<And>x. x \<in> set (split_where is_separator (join_continuations t)) \<Longrightarrow> strip x = []"
  proof -
    fix x assume "x \<in> set (split_where is_separator (join_continuations t))"
    then have "set x \<subseteq> set (join_continuations t)" by (rule split_where_subset)
    then have "set x \<subseteq> set t" using join_continuations_subset by blast
    then have "list_all is_space x" using assms by (auto simp: list_all_iff)
    then show "strip x = []" by (rule strip_blank)
  qed
  then show ?thesis by (simp add: logical_statements_def filter_empty_conv)
qed

text \<open>
  The parser on scenario 6 of the spec's section 8: a semicolon, a newline and a
  backslash continuation give one import and two assignments.
\<close>

lemma parse_statements_continuation_example:
  "parse_statements (Some (''from datetime import datetime as dt;d = dt(2018, 1, 1).isoformat()''
       @ [newline] @ ''q='' @ [backslash, newline] @ ''dt(2011, 5, 1).isoformat()''))
   = [Import (Some ''datetime'') ''datetime'' (Some ''dt''),
      Assignment ''d'' ''dt(2018, 1, 1).isoformat()'',
      Assignment ''q'' ''dt(2011, 5, 1).isoformat()'']"
  by (simp add: parse_statements_def logical_statements_def classify_def match_import_def
      match_assignment_def dot_plus_end_def at_end_def is_module_char_def is_variable_char_def
      is_letter_def is_digit_def is_separator_def strip_def is_space_def newline_def
      backslash_def Let_def)

text \<open>
  Claim C9. For a null override input the statement sequence is empty and
  \<^verbatim>\<open>handle_overrides\<close> returns an empty mapping and the issues list it was given; the
  same holds for every input that is empty or consists of whitespace only. Called with
  an empty issues list, as the route does, it returns an empty mapping and an empty
  issues list.
\<close>

theorem handle_overrides_blank:
  "parse_statements None = []
   \<and> handle_overrides rt decoded None found = ([], found)
   \<and> (list_all is_space t \<longrightarrow>
        parse_statements (Some t) = []
        \<and> handle_overrides rt decoded (Some t) found = ([], found))"
proof -
  have null: "parse_statements None = []"
    by (simp add: parse_statements_def)
  have on_null: "handle_overrides rt decoded None found = ([], found)"
    by (simp add: handle_overrides_def null)
  have on_blank: "list_all is_space t \<longrightarrow>
      parse_statements (Some t) = [] \<and> handle_overrides rt decoded (Some t) found = ([], found)"
  proof
    assume "list_all is_space t"
    then have "logical_statements t = []"
      by (rule logical_statements_blank)
    then have blank: "parse_statements (Some t) = []"
      by (simp add: parse_statements_def)
    then have "handle_overrides rt decoded (Some t) found = ([], found)"
      by (simp add: handle_overrides_def)
    with blank show "parse_statements (Some t) = []
        \<and> handle_overrides rt decoded (Some t) found = ([], found)" ..
  qed
  from null on_null on_blank show ?thesis
    by (intro conjI)
qed

theorem handle_overrides_blank_witness:
  "handle_overrides
     \<lparr> resolve_import = (\<lambda>m t. Inl ''No module''), eval_expression = (\<lambda>ns e. Inl ''invalid''),
       describe_type = (\<lambda>e v. []), render_value = (\<lambda>v. []) \<rparr>
     True (Some ('' '' @ [CHR 0x0A, CHR 0x09] @ ''  '')) [] = ([], [])
   \<and> handle_overrides
     \<lparr> resolve_import = (\<lambda>m t. Inl ''No module''), eval_expression = (\<lambda>ns e. Inl ''invalid''),
       describe_type = (\<lambda>e v. []), render_value = (\<lambda>v. []) \<rparr>
     True (Some []) [] = ([], [])
   \<and> parse_statements (Some ('' '' @ [CHR 0x0A, CHR 0x09] @ ''  '')) = []"
  using handle_overrides_blank
      [of "\<lparr> resolve_import = (\<lambda>m t. Inl ''No module''), eval_expression = (\<lambda>ns e. Inl ''invalid''),
       describe_type = (\<lambda>e v. []), render_value = (\<lambda>v. []) \<rparr>" True "[]"
       "'' '' @ [CHR 0x0A, CHR 0x09] @ ''  ''"]
    handle_overrides_blank
      [of "\<lparr> resolve_import = (\<lambda>m t. Inl ''No module''), eval_expression = (\<lambda>ns e. Inl ''invalid''),
       describe_type = (\<lambda>e v. []), render_value = (\<lambda>v. []) \<rparr>" True "[]" "[]"]
  by (simp add: is_space_def)

end
